theory Spec2Isabelle
  imports Complex_Main "HOL-Library.Char_ord" "HOL-Library.List_Lexorder"
begin

section \<open>The world the two helper functions run in\<close>

text \<open>
  \<^verbatim>\<open>optimized_functions.py\<close> is sequential I/O glue: it inspects a directory, calls
  the decoders and encoders of imageio, PIL and matplotlib, and prints progress lines.
  The model keeps the control flow of the source and makes every external call explicit:

  \<^item> what the code can observe of the file system (\<^verbatim>\<open>os.path.exists\<close>,
    \<^verbatim>\<open>os.listdir\<close>) is a map from paths to nodes;
  \<^item> every call with an effect (directory creation, decode, encode, figure release,
    \<^verbatim>\<open>print\<close>) is appended, in program order, to a trace of events that records the
    arguments the source passes;
  \<^item> whether a library call returns or raises, and how long it takes, is given by an
    environment, so every \<^verbatim>\<open>raise\<close> of a library is a branch of the model;
  \<^item> \<^verbatim>\<open>time.time()\<close> reads a logical clock: the sum of the costs of the events
    performed so far.

  Python strings are \<open>string\<close>; byte-wise lexicographic order on UTF-8 text agrees with
  Python's code-point order. Python's \<^verbatim>\<open>int\<close> arguments are \<open>int\<close>. The
  \<^verbatim>\<open>duration\<close> argument is only forwarded, never computed with, and is a \<open>real\<close>.
  \<^verbatim>\<open>os.makedirs\<close> raises for the empty path and for a path below a regular file;
  whether it raises for another reason (permissions, a read-only volume) is the
  environment's answer for the call. A library call that fails raises a subclass of
  \<^verbatim>\<open>Exception\<close> carrying a message; interrupts are outside the model. The line the
  module prints at import time when imageio is missing is not part of any function and is
  left out; the outcome of that import is the field \<open>IMAGEIO_AVAILABLE\<close>.
\<close>

type_synonym path = string

datatype node = Dir "string list" | File

datatype error =
    ValueError string
  | FileNotFoundError path
  | NotADirectoryError path
  | OSError string
  | LibraryError string

text \<open>One constructor per \<^verbatim>\<open>print\<close> statement, carrying the interpolated values.\<close>

datatype log_line =
    Found nat
  | NoPngFiles
  | ErrorReading path string
  | CreatedGif nat path nat
  | LoadedFrames nat
  | NoFramesLoaded
  | Saved path nat
  | ProcessingBatch nat nat

text \<open>The keyword arguments of \<^verbatim>\<open>fig.savefig\<close> in \<^verbatim>\<open>save_frame_optimized\<close>.\<close>

record savefig_kwargs =
  bbox_inches :: string
  dpi :: int
  facecolor :: string
  edgecolor :: string
  format :: string
  pil_optimize :: bool
  backend :: string

text \<open>
  The external calls. \<open>Mimsave p images d\<close> is
  \<^verbatim>\<open>imageio.mimsave(p, images, duration=d)\<close>: the source passes no loop count.
  \<open>PilSave frame_one p fmt rest save_all d loop\<close> is
  \<^verbatim>\<open>frame_one.save(p, format=fmt, append_images=rest, save_all=..., duration=d, loop=loop)\<close>.
\<close>

datatype ('img, 'fig) event =
    Print log_line
  | Makedirs path
  | Imread path
  | ImageOpen path
  | Mimsave path "'img list" real
  | PilSave 'img path string "'img list" bool real nat
  | Savefig 'fig path savefig_kwargs
  | Close 'fig

record ('img, 'fig) env =
  IMAGEIO_AVAILABLE :: bool
  imread_result :: "path \<Rightarrow> string + 'img"
  open_result :: "path \<Rightarrow> string + 'img"
  call_raises :: "('img, 'fig) event \<Rightarrow> string option"
  cost :: "('img, 'fig) event \<Rightarrow> nat"

record ('img, 'fig) world =
  fs :: "path \<rightharpoonup> node"
  trace :: "('img, 'fig) event list"

type_synonym ('img, 'fig) outcome = "(error + unit) \<times> ('img, 'fig) world"

definition emit :: "('img, 'fig) event \<Rightarrow> ('img, 'fig) world \<Rightarrow> ('img, 'fig) world" where
  "emit e w = w\<lparr>trace := trace w @ [e]\<rparr>"

definition time_time :: "('img, 'fig) env \<Rightarrow> ('img, 'fig) world \<Rightarrow> nat" where
  "time_time E w = sum_list (map (cost E) (trace w))"

subsection \<open>The pieces of the standard library the source calls\<close>

definition os_path_exists :: "('img, 'fig) world \<Rightarrow> path \<Rightarrow> bool" where
  "os_path_exists w p = (fs w p \<noteq> None)"

text \<open>\<open>below_file w p\<close>: a proper prefix of \<open>p\<close>, up to a separator, is a regular file.\<close>

definition below_file :: "('img, 'fig) world \<Rightarrow> path \<Rightarrow> bool" where
  "below_file w p =
     list_ex (\<lambda>n. p ! n = CHR ''/'' \<and> fs w (take n p) = Some File) [0..<length p]"

text \<open>
  The error \<^verbatim>\<open>os.makedirs(p)\<close> raises, if any, when \<open>p\<close> does not exist:
  \<^verbatim>\<open>FileNotFoundError\<close> for the empty path, \<^verbatim>\<open>NotADirectoryError\<close> below a regular
  file, otherwise what the environment says.
\<close>

definition makedirs_error :: "('img, 'fig) env \<Rightarrow> ('img, 'fig) world \<Rightarrow> path \<Rightarrow> error option" where
  "makedirs_error E w p =
     (if p = [] then Some (FileNotFoundError p)
      else if below_file w p then Some (NotADirectoryError p)
      else map_option OSError (call_raises E (Makedirs p)))"

text \<open>
  On success the directory is there and empty. Only the node of \<open>p\<close> itself is recorded,
  which is all the function goes on to observe.
\<close>

definition os_makedirs ::
  "('img, 'fig) env \<Rightarrow> path \<Rightarrow> ('img, 'fig) world \<Rightarrow> ('img, 'fig) outcome" where
  "os_makedirs E p w =
     (case makedirs_error E w p of
        Some e \<Rightarrow> (Inl e, emit (Makedirs p) w)
      | None \<Rightarrow> (Inr (), emit (Makedirs p) (w\<lparr>fs := (fs w)(p \<mapsto> Dir [])\<rparr>)))"

definition os_listdir :: "('img, 'fig) world \<Rightarrow> path \<Rightarrow> error + string list" where
  "os_listdir w p =
     (case fs w p of
        None \<Rightarrow> Inl (FileNotFoundError p)
      | Some File \<Rightarrow> Inl (NotADirectoryError p)
      | Some (Dir entries) \<Rightarrow> Inr entries)"

text \<open>\<^verbatim>\<open>posixpath.join\<close> with two components.\<close>

definition os_path_join :: "path \<Rightarrow> string \<Rightarrow> path" where
  "os_path_join a b =
     (if take 1 b = ''/'' then b
      else if a = [] \<or> last a = CHR ''/'' then a @ b
      else a @ ''/'' @ b)"

definition endswith :: "string \<Rightarrow> string \<Rightarrow> bool" where
  "endswith s suffix = (take (length suffix) (rev s) = rev suffix)"

text \<open>The slice \<^verbatim>\<open>xs[::2]\<close>.\<close>

fun slice_step2 :: "'a list \<Rightarrow> 'a list" where
  "slice_step2 [] = []"
| "slice_step2 [x] = [x]"
| "slice_step2 (x # y # xs) = x # slice_step2 xs"

text \<open>The slice \<^verbatim>\<open>xs[i:j]\<close> for \<open>0 \<le> i\<close> and \<open>0 \<le> j\<close>.\<close>

definition slice :: "'a list \<Rightarrow> nat \<Rightarrow> nat \<Rightarrow> 'a list" where
  "slice xs i j = take (j - i) (drop i xs)"

section \<open>\<^verbatim>\<open>make_gif_optimized\<close>\<close>

text \<open>Lines 60 and 61: the sorted PNG names, then every second one.\<close>

definition sorted_png :: "string list \<Rightarrow> string list" where
  "sorted_png entries = sort (filter (\<lambda>f. endswith f ''.png'') entries)"

definition png_files_of :: "string list \<Rightarrow> string list" where
  "png_files_of entries = slice_step2 (sorted_png entries)"

text \<open>The \<^verbatim>\<open>for\<close> loop of the imageio branch, with its per-file \<^verbatim>\<open>try\<close>.\<close>

fun load_images ::
  "('img, 'fig) env \<Rightarrow> path \<Rightarrow> string list \<Rightarrow> 'img list \<Rightarrow> ('img, 'fig) world
     \<Rightarrow> 'img list \<times> ('img, 'fig) world" where
  "load_images E frame_folder [] images w = (images, w)"
| "load_images E frame_folder (filename # rest) images w =
     (let img_path = os_path_join frame_folder filename;
          w1 = emit (Imread img_path) w
      in case imread_result E img_path of
           Inr img \<Rightarrow> load_images E frame_folder rest (images @ [img]) w1
         | Inl e \<Rightarrow>
             load_images E frame_folder rest images (emit (Print (ErrorReading img_path e)) w1))"

text \<open>The list comprehension of the PIL branch: the first failing open propagates.\<close>

fun open_frames ::
  "('img, 'fig) env \<Rightarrow> path \<Rightarrow> string list \<Rightarrow> 'img list \<Rightarrow> ('img, 'fig) world
     \<Rightarrow> (error + 'img list) \<times> ('img, 'fig) world" where
  "open_frames E frame_folder [] frames w = (Inr frames, w)"
| "open_frames E frame_folder (image_name # rest) frames w =
     (let p = os_path_join frame_folder image_name;
          w1 = emit (ImageOpen p) w
      in case open_result E p of
           Inr fr \<Rightarrow> open_frames E frame_folder rest (frames @ [fr]) w1
         | Inl e \<Rightarrow> (Inl (LibraryError e), w1))"

definition make_gif_optimized ::
  "('img, 'fig) env \<Rightarrow> path \<Rightarrow> real \<Rightarrow> string \<Rightarrow> bool \<Rightarrow> ('img, 'fig) world
     \<Rightarrow> ('img, 'fig) outcome" where
  "make_gif_optimized E frame_folder duration name use_imageio w =
     (case (if \<not> os_path_exists w frame_folder then os_makedirs E frame_folder w
            else (Inr (), w)) of
        (Inl e, w1) \<Rightarrow> (Inl e, w1)
      | (Inr u, w1) \<Rightarrow>
         case os_listdir w1 frame_folder of
           Inl e \<Rightarrow> (Inl e, w1)
         | Inr entries \<Rightarrow>
             (let png_files = png_files_of entries;
                  w2 = emit (Print (Found (length png_files))) w1
              in if png_files = [] then (Inr (), emit (Print NoPngFiles) w2)
                 else if use_imageio \<and> IMAGEIO_AVAILABLE E then
                   (case load_images E frame_folder png_files [] w2 of
                      (images, w3) \<Rightarrow>
                        (let gif_path = os_path_join frame_folder (name @ ''.gif'');
                             start_time = time_time E w3;
                             call = Mimsave gif_path images duration;
                             w4 = emit call w3
                         in case call_raises E call of
                              Some e \<Rightarrow> (Inl (LibraryError e), w4)
                            | None \<Rightarrow>
                                (let end_time = time_time E w4
                                 in (Inr (),
                                     emit (Print (CreatedGif (length images) gif_path
                                                    (end_time - start_time))) w4))))
                 else
                   (let start_time = time_time E w2
                    in case open_frames E frame_folder png_files [] w2 of
                         (Inl e, w3) \<Rightarrow> (Inl e, w3)
                       | (Inr frames, w3) \<Rightarrow>
                           (let w4 = emit (Print (LoadedFrames (length frames))) w3
                            in case frames of
                                 frame_one # rest \<Rightarrow>
                                   (let gif_path = os_path_join frame_folder (name @ ''.gif'');
                                        call = PilSave frame_one gif_path ''GIF'' rest True
                                                 duration 0;
                                        w5 = emit call w4
                                    in case call_raises E call of
                                         Some e \<Rightarrow> (Inl (LibraryError e), w5)
                                       | None \<Rightarrow>
                                           (let end_time = time_time E w5
                                            in (Inr (),
                                                emit (Print (CreatedGif (length frames) gif_path
                                                               (end_time - start_time))) w5)))
                               | [] \<Rightarrow> (Inr (), emit (Print NoFramesLoaded) w4)))))"

section \<open>\<^verbatim>\<open>save_frame_optimized\<close> and \<^verbatim>\<open>batch_save_frames\<close>\<close>

definition save_frame_optimized ::
  "('img, 'fig) env \<Rightarrow> 'fig \<Rightarrow> path \<Rightarrow> int \<Rightarrow> ('img, 'fig) world \<Rightarrow> ('img, 'fig) outcome" where
  "save_frame_optimized E fig filename d w =
     (let start_time = time_time E w;
          call = Savefig fig filename
                   \<lparr>bbox_inches = ''tight'', dpi = d, facecolor = ''white'',
                    edgecolor = ''none'', format = ''png'', pil_optimize = True,
                    backend = ''Agg''\<rparr>;
          w1 = emit call w
      in case call_raises E call of
           Some e \<Rightarrow> (Inl (LibraryError e), w1)
         | None \<Rightarrow>
             (let end_time = time_time E w1
              in (Inr (), emit (Print (Saved filename (end_time - start_time))) w1)))"

text \<open>The inner loop \<^verbatim>\<open>for fig, fname in zip(batch_figures, batch_filenames)\<close>.\<close>

fun save_batch ::
  "('img, 'fig) env \<Rightarrow> int \<Rightarrow> ('fig \<times> path) list \<Rightarrow> ('img, 'fig) world
     \<Rightarrow> ('img, 'fig) outcome" where
  "save_batch E d [] w = (Inr (), w)"
| "save_batch E d ((fig, fname) # rest) w =
     (case save_frame_optimized E fig fname d w of
        (Inl e, w1) \<Rightarrow> (Inl e, w1)
      | (Inr u, w1) \<Rightarrow> save_batch E d rest (emit (Close fig) w1))"

text \<open>
  The outer loop \<^verbatim>\<open>for i in range(0, total, batch_size)\<close> for a positive step,
  from the index \<open>i\<close> on.
\<close>

function batch_loop ::
  "('img, 'fig) env \<Rightarrow> 'fig list \<Rightarrow> path list \<Rightarrow> int \<Rightarrow> nat \<Rightarrow> nat \<Rightarrow> ('img, 'fig) world
     \<Rightarrow> ('img, 'fig) outcome" where
  "batch_loop E figures filenames d batch_size i w =
     (let total = length figures
      in if batch_size = 0 \<or> total \<le> i then (Inr (), w)
         else
           (let batch_end = min (i + batch_size) total;
                batch_figures = slice figures i batch_end;
                batch_filenames = slice filenames i batch_end;
                w1 = emit (Print (ProcessingBatch (i div batch_size + 1)
                                    ((total - 1) div batch_size + 1))) w
            in case save_batch E d (zip batch_figures batch_filenames) w1 of
                 (Inl e, w2) \<Rightarrow> (Inl e, w2)
               | (Inr u, w2) \<Rightarrow> batch_loop E figures filenames d batch_size (i + batch_size) w2))"
  by pat_completeness auto
termination
  by (relation "measure (\<lambda>(E, figures, filenames, d, batch_size, i, w). length figures - i)")
     auto

text \<open>
  \<^verbatim>\<open>range(0, total, batch_size)\<close> raises for a zero step and is empty for a negative
  one, \<open>total\<close> being a length.
\<close>

definition batch_save_frames ::
  "('img, 'fig) env \<Rightarrow> 'fig list \<Rightarrow> path list \<Rightarrow> int \<Rightarrow> int \<Rightarrow> ('img, 'fig) world
     \<Rightarrow> ('img, 'fig) outcome" where
  "batch_save_frames E figures filenames d batch_size w =
     (if length figures \<noteq> length filenames
      then (Inl (ValueError ''Number of figures must match number of filenames''), w)
      else if batch_size = 0 then (Inl (ValueError ''range() arg 3 must not be zero''), w)
      else if batch_size < 0 then (Inr (), w)
      else batch_loop E figures filenames d (nat batch_size) 0 w)"

section \<open>Reading a run\<close>

text \<open>
  The functions below describe what a run leaves behind; they are used to state the
  properties, not to compute the run. \<open>loaded_images\<close> are the images of the files
  that \<^verbatim>\<open>imageio.imread\<close> decodes, in order; \<open>load_events\<close> are the events of
  the loading loop: a read per file, followed by an error line where the read raised.
\<close>

definition loaded_images :: "('img, 'fig) env \<Rightarrow> path \<Rightarrow> string list \<Rightarrow> 'img list" where
  "loaded_images E frame_folder files =
     List.map_filter
       (\<lambda>f. case imread_result E (os_path_join frame_folder f) of
               Inr img \<Rightarrow> Some img
             | Inl e \<Rightarrow> None) files"

definition load_events ::
  "('img, 'fig) env \<Rightarrow> path \<Rightarrow> string list \<Rightarrow> ('img, 'fig) event list" where
  "load_events E frame_folder files =
     concat (map (\<lambda>f. case imread_result E (os_path_join frame_folder f) of
                         Inr img \<Rightarrow> [Imread (os_path_join frame_folder f)]
                       | Inl e \<Rightarrow> [Imread (os_path_join frame_folder f),
                                   Print (ErrorReading (os_path_join frame_folder f) e)]) files)"

text \<open>\<open>opens E d f\<close>: \<^verbatim>\<open>Image.open\<close> returns a handle for the file \<open>f\<close> of \<open>d\<close>.\<close>

definition opens :: "('img, 'fig) env \<Rightarrow> path \<Rightarrow> string \<Rightarrow> bool" where
  "opens E frame_folder f = (\<not> isl (open_result E (os_path_join frame_folder f)))"

definition reads :: "('img, 'fig) env \<Rightarrow> path \<Rightarrow> string \<Rightarrow> bool" where
  "reads E frame_folder f = (\<not> isl (imread_result E (os_path_join frame_folder f)))"

definition opened_frames :: "('img, 'fig) env \<Rightarrow> path \<Rightarrow> string list \<Rightarrow> 'img list" where
  "opened_frames E frame_folder files =
     map (\<lambda>f. projr (open_result E (os_path_join frame_folder f))) files"

definition open_events :: "path \<Rightarrow> string list \<Rightarrow> ('img, 'fig) event list" where
  "open_events frame_folder files = map (\<lambda>f. ImageOpen (os_path_join frame_folder f)) files"

text \<open>The encode calls of a trace, and what each asks the encoder for.\<close>

fun is_encode :: "('img, 'fig) event \<Rightarrow> bool" where
  "is_encode (Mimsave p images d) = True"
| "is_encode (PilSave frame_one p fmt rest save_all d loop) = True"
| "is_encode e = False"

definition encode_calls :: "('img, 'fig) event list \<Rightarrow> ('img, 'fig) event list" where
  "encode_calls tr = filter is_encode tr"

fun frames_of :: "('img, 'fig) event \<Rightarrow> 'img list" where
  "frames_of (Mimsave p images d) = images"
| "frames_of (PilSave frame_one p fmt rest save_all d loop) = frame_one # rest"
| "frames_of e = []"

fun duration_of :: "('img, 'fig) event \<Rightarrow> real option" where
  "duration_of (Mimsave p images d) = Some d"
| "duration_of (PilSave frame_one p fmt rest save_all d loop) = Some d"
| "duration_of e = None"


text \<open>The decode calls of a trace: the reads of imageio and the opens of PIL.\<close>

fun is_decode :: "('img, 'fig) event \<Rightarrow> bool" where
  "is_decode (Imread p) = True"
| "is_decode (ImageOpen p) = True"
| "is_decode e = False"

definition decode_calls :: "('img, 'fig) event list \<Rightarrow> ('img, 'fig) event list" where
  "decode_calls tr = filter is_decode tr"

text \<open>The loop count a call passes: \<open>None\<close> when the call has no such argument.\<close>

fun loop_of :: "('img, 'fig) event \<Rightarrow> nat option" where
  "loop_of (PilSave frame_one p fmt rest save_all d loop) = Some loop"
| "loop_of e = None"

fun is_print :: "('img, 'fig) event \<Rightarrow> bool" where
  "is_print (Print l) = True"
| "is_print e = False"

text \<open>The calls of a trace other than \<^verbatim>\<open>print\<close>.\<close>

definition effects :: "('img, 'fig) event list \<Rightarrow> ('img, 'fig) event list" where
  "effects tr = filter (\<lambda>e. \<not> is_print e) tr"

text \<open>What \<^verbatim>\<open>batch_save_frames\<close> does for one figure: the write, then the release.\<close>

definition savefig_call :: "int \<Rightarrow> 'fig \<Rightarrow> path \<Rightarrow> ('img, 'fig) event" where
  "savefig_call d fig fname =
     Savefig fig fname
       \<lparr>bbox_inches = ''tight'', dpi = d, facecolor = ''white'', edgecolor = ''none'',
        format = ''png'', pil_optimize = True, backend = ''Agg''\<rparr>"

definition write_then_close :: "int \<Rightarrow> 'fig \<times> path \<Rightarrow> ('img, 'fig) event list" where
  "write_then_close d = (\<lambda>(fig, fname). [savefig_call d fig fname, Close fig])"

text \<open>
  All the events of one figure of the batch: the write, its timing line, the release.
\<close>

definition item_events :: "('img, 'fig) env \<Rightarrow> int \<Rightarrow> 'fig \<times> path \<Rightarrow> ('img, 'fig) event list" where
  "item_events E d =
     (\<lambda>(fig, fname).
        [savefig_call d fig fname,
         Print (Saved fname (cost E (savefig_call d fig fname))),
         Close fig])"

text \<open>
  \<open>write_ok E d (fig, fname)\<close>: the write of \<open>fig\<close> to \<open>fname\<close> at \<open>d\<close> dpi returns. For a
  list of figures with their filenames, \<open>stop_outcome\<close> is the error of the first write
  that raises (and a normal return when there is none), and \<open>stop_events\<close> is that write.
\<close>

definition write_ok :: "('img, 'fig) env \<Rightarrow> int \<Rightarrow> 'fig \<times> path \<Rightarrow> bool" where
  "write_ok E d = (\<lambda>(fig, fname). call_raises E (savefig_call d fig fname) = None)"

definition stop_outcome :: "('img, 'fig) env \<Rightarrow> int \<Rightarrow> ('fig \<times> path) list \<Rightarrow> error + unit" where
  "stop_outcome E d items =
     (case dropWhile (write_ok E d) items of
        [] \<Rightarrow> Inr ()
      | (fig, fname) # later \<Rightarrow>
          Inl (LibraryError (the (call_raises E (savefig_call d fig fname)))))"

definition stop_events :: "('img, 'fig) env \<Rightarrow> int \<Rightarrow> ('fig \<times> path) list \<Rightarrow> ('img, 'fig) event list" where
  "stop_events E d items =
     (case dropWhile (write_ok E d) items of
        [] \<Rightarrow> []
      | (fig, fname) # later \<Rightarrow> [savefig_call d fig fname])"

text \<open>The events a run adds to the trace it starts from.\<close>

definition run_events :: "('img, 'fig) world \<Rightarrow> ('img, 'fig) outcome \<Rightarrow> ('img, 'fig) event list" where
  "run_events w r = drop (length (trace w)) (trace (snd r))"

subsection \<open>A concrete scenario\<close>

text \<open>
  The scenario of the specification: a folder \<^verbatim>\<open>frames\<close> holding ten frames
  \<^verbatim>\<open>f000.png\<close> to \<^verbatim>\<open>f009.png\<close> (listed in no particular order, next to two other
  files), a duration of a tenth of a second and the name \<^verbatim>\<open>demo\<close>. In
  \<open>demo_env\<close> every frame decodes; in \<open>flaky_env\<close> the frame \<^verbatim>\<open>f004.png\<close> does not.
\<close>

definition demo_entries :: "string list" where
  "demo_entries =
     [''f003.png'', ''f000.png'', ''f009.png'', ''notes.txt'', ''f001.png'', ''f002.png'',
      ''f005.png'', ''f004.png'', ''f007.png'', ''f006.png'', ''f008.png'', ''demo.gif'']"

definition demo_world :: "(string, nat) world" where
  "demo_world = \<lparr>fs = [''frames'' \<mapsto> Dir demo_entries], trace = []\<rparr>"

definition demo_cost :: "(string, nat) event \<Rightarrow> nat" where
  "demo_cost c =
     (case c of
        Imread p \<Rightarrow> 3
      | ImageOpen p \<Rightarrow> 3
      | Mimsave p images d \<Rightarrow> 7
      | PilSave frame_one p fmt rest save_all d loop \<Rightarrow> 7
      | Savefig fig p kw \<Rightarrow> 2
      | Print l \<Rightarrow> 1
      | _ \<Rightarrow> 0)"

definition demo_env :: "(string, nat) env" where
  "demo_env =
     \<lparr>IMAGEIO_AVAILABLE = True,
      imread_result = (\<lambda>p. Inr (''array '' @ p)),
      open_result = (\<lambda>p. Inr (''handle '' @ p)),
      call_raises = (\<lambda>c. None),
      cost = demo_cost\<rparr>"

definition flaky_env :: "(string, nat) env" where
  "flaky_env =
     demo_env
       \<lparr>imread_result :=
          (\<lambda>p. if p = ''frames/f004.png'' then Inl ''truncated file'' else Inr (''array '' @ p)),
        open_result :=
          (\<lambda>p. if p = ''frames/f004.png'' then Inl ''truncated file'' else Inr (''handle '' @ p))\<rparr>"

text \<open>
  In \<open>broken_env\<close> no frame decodes, and the encoder refuses an empty list of images.
\<close>

definition broken_env :: "(string, nat) env" where
  "broken_env =
     demo_env
       \<lparr>imread_result := (\<lambda>p. Inl ''cannot identify image file''),
        call_raises :=
          (\<lambda>c. case c of
                  Mimsave p [] d \<Rightarrow> Some ''need at least one array to stack''
                | _ \<Rightarrow> None)\<rparr>"

text \<open>In \<open>jam_env\<close> the write of figure 2 raises.\<close>

definition jam_env :: "(string, nat) env" where
  "jam_env =
     demo_env
       \<lparr>call_raises :=
          (\<lambda>c. case c of
                  Savefig fig p kw \<Rightarrow> if fig = 2 then Some ''No space left on device'' else None
                | _ \<Rightarrow> None)\<rparr>"


definition lazy_env :: "(string, nat) env" where
  "lazy_env =
     demo_env
       \<lparr>call_raises :=
          (\<lambda>c. case c of
                  PilSave frame_one p fmt rest save_all d loop \<Rightarrow> Some ''image file is truncated''
                | _ \<Rightarrow> None)\<rparr>"

section \<open>The loops, in closed form\<close>

lemma load_images_eq:
  "load_images E frame_folder files images w =
     (images @ loaded_images E frame_folder files,
      w\<lparr>trace := trace w @ load_events E frame_folder files\<rparr>)"
  by (induction files arbitrary: images w)
     (simp_all add: loaded_images_def load_events_def emit_def Let_def split: sum.split)

lemma open_frames_ok:
  "\<forall>f \<in> set files. opens E frame_folder f \<Longrightarrow>
   open_frames E frame_folder files frames w =
     (Inr (frames @ opened_frames E frame_folder files),
      w\<lparr>trace := trace w @ open_events frame_folder files\<rparr>)"
  by (induction files arbitrary: frames w)
     (auto simp add: opened_frames_def open_events_def opens_def emit_def Let_def
        split: sum.split)

lemma open_frames_bad:
  "\<not> opens E frame_folder b \<Longrightarrow> \<forall>f \<in> set good. opens E frame_folder f \<Longrightarrow>
   open_frames E frame_folder (good @ b # rest) frames w =
     (Inl (LibraryError (projl (open_result E (os_path_join frame_folder b)))),
      w\<lparr>trace := trace w @ open_events frame_folder (good @ [b])\<rparr>)"
  by (induction good arbitrary: frames w)
     (auto simp add: open_events_def opens_def emit_def Let_def split: sum.split)

lemma listdir_exists:
  "os_listdir w frame_folder = Inr entries \<Longrightarrow> os_path_exists w frame_folder"
  by (auto simp add: os_listdir_def os_path_exists_def split: option.splits)

lemma listdir_Dir: "fs w frame_folder = Some (Dir entries) \<Longrightarrow> os_listdir w frame_folder = Inr entries"
  by (simp add: os_listdir_def)

section \<open>\<^verbatim>\<open>make_gif_optimized\<close>, branch by branch\<close>

lemma make_gif_no_frames:
  assumes "os_listdir w frame_folder = Inr entries" and "png_files_of entries = []"
  shows "make_gif_optimized E frame_folder duration name use_imageio w =
           (Inr (), w\<lparr>trace := trace w @ [Print (Found 0), Print NoPngFiles]\<rparr>)"
  using assms listdir_exists [OF assms(1)]
  by (simp add: make_gif_optimized_def emit_def)

lemma make_gif_fast:
  assumes "os_listdir w frame_folder = Inr entries" and "png_files_of entries \<noteq> []"
    and "use_imageio" and "IMAGEIO_AVAILABLE E"
  shows "make_gif_optimized E frame_folder duration name use_imageio w =
     (let png_files = png_files_of entries;
          images = loaded_images E frame_folder png_files;
          gif_path = os_path_join frame_folder (name @ ''.gif'');
          call = Mimsave gif_path images duration
      in (case call_raises E call of Some e \<Rightarrow> Inl (LibraryError e) | None \<Rightarrow> Inr (),
          w\<lparr>trace := trace w @ Print (Found (length png_files))
                          # load_events E frame_folder png_files
                          @ call
                          # (case call_raises E call of
                               Some e \<Rightarrow> []
                             | None \<Rightarrow> [Print (CreatedGif (length images) gif_path
                                           (cost E call))])\<rparr>))"
  using assms listdir_exists [OF assms(1)]
  by (simp add: make_gif_optimized_def load_images_eq Let_def time_time_def emit_def
        split: option.split)

lemma make_gif_fallback_ok:
  assumes "os_listdir w frame_folder = Inr entries" and "png_files_of entries \<noteq> []"
    and "\<not> (use_imageio \<and> IMAGEIO_AVAILABLE E)"
    and "\<forall>f \<in> set (png_files_of entries). opens E frame_folder f"
  shows "make_gif_optimized E frame_folder duration name use_imageio w =
     (let png_files = png_files_of entries;
          frames = opened_frames E frame_folder png_files;
          gif_path = os_path_join frame_folder (name @ ''.gif'');
          loading = open_events frame_folder png_files @ [Print (LoadedFrames (length frames))];
          call = PilSave (hd frames) gif_path ''GIF'' (tl frames) True duration 0
      in (case call_raises E call of Some e \<Rightarrow> Inl (LibraryError e) | None \<Rightarrow> Inr (),
          w\<lparr>trace := trace w @ Print (Found (length png_files))
                          # loading
                          @ call
                          # (case call_raises E call of
                               Some e \<Rightarrow> []
                             | None \<Rightarrow> [Print (CreatedGif (length frames) gif_path
                                           (sum_list (map (cost E) loading) + cost E call))])\<rparr>))"
proof -
  from assms(2) have "opened_frames E frame_folder (png_files_of entries) \<noteq> []"
    by (simp add: opened_frames_def)
  then obtain fr rest where fr: "opened_frames E frame_folder (png_files_of entries) = fr # rest"
    by (cases "opened_frames E frame_folder (png_files_of entries)") auto
  from listdir_exists [OF assms(1)] assms(1,2,4) fr show ?thesis
    by (simp add: make_gif_optimized_def open_frames_ok Let_def time_time_def emit_def
          if_not_P [OF assms(3)] split: option.split)
qed

lemma make_gif_fallback_bad:
  assumes "os_listdir w frame_folder = Inr entries"
    and "\<not> (use_imageio \<and> IMAGEIO_AVAILABLE E)"
    and "png_files_of entries = good @ b # rest"
    and "\<forall>f \<in> set good. opens E frame_folder f" and "\<not> opens E frame_folder b"
  shows "make_gif_optimized E frame_folder duration name use_imageio w =
     (Inl (LibraryError (projl (open_result E (os_path_join frame_folder b)))),
      w\<lparr>trace := trace w @ Print (Found (length (png_files_of entries)))
                          # open_events frame_folder (good @ [b])\<rparr>)"
  using listdir_exists [OF assms(1)] assms(1,3,4,5)
  by (simp add: make_gif_optimized_def open_frames_bad Let_def emit_def
        if_not_P [OF assms(2)])

section \<open>Every second frame\<close>

lemma slice_step2_length: "length (slice_step2 xs) = (length xs + 1) div 2"
  by (induction xs rule: slice_step2.induct) simp_all

lemma slice_step2_nth: "i < (length xs + 1) div 2 \<Longrightarrow> slice_step2 xs ! i = xs ! (2 * i)"
proof (induction xs arbitrary: i rule: slice_step2.induct)
  case (3 x y xs)
  then show ?case by (cases i) simp_all
qed simp_all

lemma slice_step2_map: "slice_step2 xs = map (\<lambda>i. xs ! (2 * i)) [0..<(length xs + 1) div 2]"
  by (rule nth_equalityI) (simp_all add: slice_step2_length slice_step2_nth)

lemma ceiling_half: "nat \<lceil>real n / 2\<rceil> = (n + 1) div 2"
  by linarith

section \<open>The scenario, evaluated\<close>

lemma demo_sorted:
  "sorted_png demo_entries =
     [''f000.png'', ''f001.png'', ''f002.png'', ''f003.png'', ''f004.png'',
      ''f005.png'', ''f006.png'', ''f007.png'', ''f008.png'', ''f009.png'']"
  by (simp add: sorted_png_def endswith_def demo_entries_def)

lemma demo_png_files:
  "png_files_of demo_entries = [''f000.png'', ''f002.png'', ''f004.png'', ''f006.png'', ''f008.png'']"
  by (simp add: png_files_of_def demo_sorted)

lemma demo_fs: "fs demo_world ''frames'' = Some (Dir demo_entries)"
  by (simp add: demo_world_def)

section \<open>The retained frames\<close>

lemma make_gif_found:
  assumes "os_listdir w frame_folder = Inr entries"
  shows "\<exists>rest. trace (snd (make_gif_optimized E frame_folder duration name use_imageio w)) =
           trace w @ Print (Found (length (png_files_of entries))) # rest"
proof (cases "png_files_of entries = []")
  case True
  with assms show ?thesis by (simp add: make_gif_no_frames)
next
  case ne: False
  show ?thesis
  proof (cases "use_imageio \<and> IMAGEIO_AVAILABLE E")
    case True
    with assms ne show ?thesis by (simp add: make_gif_fast Let_def)
  next
    case fb: False
    show ?thesis
    proof (cases "\<forall>f \<in> set (png_files_of entries). opens E frame_folder f")
      case True
      with assms ne fb show ?thesis by (simp add: make_gif_fallback_ok Let_def)
    next
      case False
      then have "\<exists>f \<in> set (png_files_of entries). \<not> opens E frame_folder f" by simp
      from split_list_first_prop [OF this] obtain good b rest where
        split: "png_files_of entries = good @ b # rest" and bad: "\<not> opens E frame_folder b"
        and good: "\<forall>f \<in> set good. \<not> \<not> opens E frame_folder f"
        by blast
      from good have good': "\<forall>f \<in> set good. opens E frame_folder f" by simp
      show ?thesis
        unfolding make_gif_fallback_bad [OF assms fb split good' bad] by simp
    qed
  qed
qed

section \<open>The imageio branch\<close>

lemma loaded_images_filter:
  "loaded_images E frame_folder files =
     map (\<lambda>f. projr (imread_result E (os_path_join frame_folder f)))
       (filter (reads E frame_folder) files)"
  by (induction files)
     (auto simp add: loaded_images_def reads_def split: sum.split)

lemma loaded_images_none:
  "\<forall>f \<in> set files. \<not> reads E frame_folder f \<Longrightarrow> loaded_images E frame_folder files = []"
  by (simp add: loaded_images_filter filter_empty_conv)

lemma load_events_none:
  "\<forall>f \<in> set files. \<not> reads E frame_folder f \<Longrightarrow>
   load_events E frame_folder files =
     concat (map (\<lambda>f. [Imread (os_path_join frame_folder f),
                        Print (ErrorReading (os_path_join frame_folder f)
                                 (projl (imread_result E (os_path_join frame_folder f))))]) files)"
  by (induction files) (auto simp add: load_events_def reads_def split: sum.split)



lemma flaky_open:
  "open_result flaky_env p =
     (if p = ''frames/f004.png'' then Inl ''truncated file'' else Inr (''handle '' @ p))"
  by (simp add: flaky_env_def)


text \<open>
  Claim C10. In the imageio branch, when every retained frame fails to load,
  \<^verbatim>\<open>imageio.mimsave\<close> is still called, with the empty list of images; the line of the
  early return is not printed: that return is taken only when no frame is retained, before
  any read.
\<close>

theorem all_reads_fail_still_encodes:
  assumes "fs w frame_folder = Some (Dir entries)" and "png_files_of entries \<noteq> []"
    and "use_imageio" and "IMAGEIO_AVAILABLE E"
    and "\<forall>f \<in> set (png_files_of entries). \<not> reads E frame_folder f"
  shows "make_gif_optimized E frame_folder duration name use_imageio w =
     (let png_files = png_files_of entries;
          call = Mimsave (os_path_join frame_folder (name @ ''.gif'')) [] duration
      in (case call_raises E call of Some e \<Rightarrow> Inl (LibraryError e) | None \<Rightarrow> Inr (),
          w\<lparr>trace := trace w @ Print (Found (length png_files))
                          # concat (map (\<lambda>f. [Imread (os_path_join frame_folder f),
                                               Print (ErrorReading (os_path_join frame_folder f)
                                                 (projl (imread_result E
                                                           (os_path_join frame_folder f))))])
                                      png_files)
                          @ call
                          # (case call_raises E call of
                               Some e \<Rightarrow> []
                             | None \<Rightarrow>
                                 [Print (CreatedGif 0
                                           (os_path_join frame_folder (name @ ''.gif''))
                                           (cost E call))])\<rparr>))
     \<and> Print NoPngFiles
         \<notin> set (run_events w (make_gif_optimized E frame_folder duration name use_imageio w))"
proof -
  note run = make_gif_fast [OF listdir_Dir [OF assms(1)] assms(2,3,4), of duration name]
  have eq: "make_gif_optimized E frame_folder duration name use_imageio w =
     (let png_files = png_files_of entries;
          call = Mimsave (os_path_join frame_folder (name @ ''.gif'')) [] duration
      in (case call_raises E call of Some e \<Rightarrow> Inl (LibraryError e) | None \<Rightarrow> Inr (),
          w\<lparr>trace := trace w @ Print (Found (length png_files))
                          # concat (map (\<lambda>f. [Imread (os_path_join frame_folder f),
                                               Print (ErrorReading (os_path_join frame_folder f)
                                                 (projl (imread_result E
                                                           (os_path_join frame_folder f))))])
                                      png_files)
                          @ call
                          # (case call_raises E call of
                               Some e \<Rightarrow> []
                             | None \<Rightarrow>
                                 [Print (CreatedGif 0
                                           (os_path_join frame_folder (name @ ''.gif''))
                                           (cost E call))])\<rparr>))"
    using run [unfolded Let_def loaded_images_none [OF assms(5)] load_events_none [OF assms(5)]
                 list.size(3)]
    by (simp add: Let_def)
  have "Print NoPngFiles
         \<notin> set (run_events w (make_gif_optimized E frame_folder duration name use_imageio w))"
    unfolding eq by (auto simp add: run_events_def Let_def split: option.split)
  with eq show ?thesis by simp
qed


lemma demo_trace: "trace demo_world = []"
  by (simp add: demo_world_def)

lemma broken_reads: "\<not> reads broken_env frame_folder f"
  by (simp add: reads_def broken_env_def)

theorem all_reads_fail_still_encodes_witness:
  "fs demo_world ''frames'' = Some (Dir demo_entries) \<and> png_files_of demo_entries \<noteq> []
   \<and> IMAGEIO_AVAILABLE broken_env
   \<and> make_gif_optimized broken_env ''frames'' (1 / 10) ''demo'' True demo_world =
       (Inl (LibraryError ''need at least one array to stack''),
        demo_world
          \<lparr>trace :=
             [Print (Found 5),
              Imread ''frames/f000.png'',
              Print (ErrorReading ''frames/f000.png'' ''cannot identify image file''),
              Imread ''frames/f002.png'',
              Print (ErrorReading ''frames/f002.png'' ''cannot identify image file''),
              Imread ''frames/f004.png'',
              Print (ErrorReading ''frames/f004.png'' ''cannot identify image file''),
              Imread ''frames/f006.png'',
              Print (ErrorReading ''frames/f006.png'' ''cannot identify image file''),
              Imread ''frames/f008.png'',
              Print (ErrorReading ''frames/f008.png'' ''cannot identify image file''),
              Mimsave ''frames/demo.gif'' [] (1 / 10)]\<rparr>)"
proof -
  have ne: "png_files_of demo_entries \<noteq> []"
    by (simp add: demo_png_files)
  have av: "IMAGEIO_AVAILABLE broken_env"
    by (simp add: broken_env_def demo_env_def)
  have bad: "\<forall>f \<in> set (png_files_of demo_entries). \<not> reads broken_env ''frames'' f"
    by (simp add: broken_reads)
  from all_reads_fail_still_encodes [OF demo_fs ne TrueI av bad, of "1 / 10" "''demo''"]
  have "make_gif_optimized broken_env ''frames'' (1 / 10) ''demo'' True demo_world =
       (Inl (LibraryError ''need at least one array to stack''),
        demo_world
          \<lparr>trace :=
             [Print (Found 5),
              Imread ''frames/f000.png'',
              Print (ErrorReading ''frames/f000.png'' ''cannot identify image file''),
              Imread ''frames/f002.png'',
              Print (ErrorReading ''frames/f002.png'' ''cannot identify image file''),
              Imread ''frames/f004.png'',
              Print (ErrorReading ''frames/f004.png'' ''cannot identify image file''),
              Imread ''frames/f006.png'',
              Print (ErrorReading ''frames/f006.png'' ''cannot identify image file''),
              Imread ''frames/f008.png'',
              Print (ErrorReading ''frames/f008.png'' ''cannot identify image file''),
              Mimsave ''frames/demo.gif'' [] (1 / 10)]\<rparr>)"
    by (simp add: demo_png_files os_path_join_def Let_def broken_env_def demo_world_def)
  with demo_fs ne av show ?thesis by simp
qed

lemma run_events_append [simp]: "run_events w (x, w\<lparr>trace := trace w @ es\<rparr>) = es"
  by (simp add: run_events_def)

lemma decode_load_events:
  "decode_calls (load_events E frame_folder files) =
     map (\<lambda>f. Imread (os_path_join frame_folder f)) files"
  by (induction files) (auto simp add: decode_calls_def load_events_def split: sum.split)

lemma encode_load_events: "encode_calls (load_events E frame_folder files) = []"
  by (induction files) (auto simp add: encode_calls_def load_events_def split: sum.split)

lemma decode_open_events: "decode_calls (open_events frame_folder files) = open_events frame_folder files"
  by (induction files) (auto simp add: decode_calls_def open_events_def)

lemma encode_open_events: "encode_calls (open_events frame_folder files) = []"
  by (induction files) (auto simp add: encode_calls_def open_events_def)

lemma png_files_even:
  "png_files_of entries =
     map (\<lambda>i. sort (filter (\<lambda>f. endswith f ''.png'') entries) ! (2 * i))
       [0..<nat \<lceil>real (length (filter (\<lambda>f. endswith f ''.png'') entries)) / 2\<rceil>]"
proof -
  have "length (sort (filter (\<lambda>f. endswith f ''.png'') entries))
          = length (filter (\<lambda>f. endswith f ''.png'') entries)"
    by simp
  then show ?thesis
    unfolding png_files_of_def sorted_png_def ceiling_half
    by (metis slice_step2_map)
qed

lemma split_first_bad:
  assumes "\<exists>f \<in> set files. \<not> P f"
  shows "files = takeWhile P files @ hd (dropWhile P files) # tl (dropWhile P files)"
    and "\<not> P (hd (dropWhile P files))"
    and "\<forall>f \<in> set (takeWhile P files). P f"
    and "dropWhile P files \<noteq> []"
proof -
  from assms show ne: "dropWhile P files \<noteq> []"
    by (simp add: dropWhile_eq_Nil_conv)
  then show "\<not> P (hd (dropWhile P files))"
    by (rule hd_dropWhile)
  from ne show "files = takeWhile P files @ hd (dropWhile P files) # tl (dropWhile P files)"
    by simp
  show "\<forall>f \<in> set (takeWhile P files). P f"
    by (auto dest: set_takeWhileD)
qed

lemma take_first_bad:
  assumes "\<exists>f \<in> set files. \<not> P f"
  shows "take (Suc (length (takeWhile P files))) files = takeWhile P files @ [hd (dropWhile P files)]"
proof -
  note sp = split_first_bad [OF assms]
  have "take (Suc (length (takeWhile P files)))
          (takeWhile P files @ hd (dropWhile P files) # tl (dropWhile P files))
        = takeWhile P files @ [hd (dropWhile P files)]"
    by simp
  with sp(1) show ?thesis by simp
qed

text \<open>
  Claim C1. For a directory whose listing holds \<open>N\<close> names ending in \<^verbatim>\<open>.png\<close>,
  \<^verbatim>\<open>make_gif_optimized\<close> retains \<open>\<lceil>N / 2\<rceil>\<close> frames, the names at the even positions
  0, 2, 4, ... of the ascending sorted list of those names: it prints that count first; in
  the imageio branch it reads exactly those files, in that order, and encodes the ones
  that decode; in the PIL branch it opens exactly those files, in that order, up to the
  first that fails, and encodes all of them when none fails.
\<close>

theorem retained_frames_even_positions:
  assumes "fs w frame_folder = Some (Dir entries)"
  shows "let pngs = filter (\<lambda>f. endswith f ''.png'') entries;
             kept = map (\<lambda>i. sort pngs ! (2 * i)) [0..<nat \<lceil>real (length pngs) / 2\<rceil>];
             run = run_events w (make_gif_optimized E frame_folder duration name use_imageio w)
         in take 1 run = [Print (Found (nat \<lceil>real (length pngs) / 2\<rceil>))]
            \<and> (use_imageio \<and> IMAGEIO_AVAILABLE E \<longrightarrow>
                 decode_calls run = map (\<lambda>f. Imread (os_path_join frame_folder f)) kept
                 \<and> map frames_of (encode_calls run) =
                     (if kept = [] then []
                      else [map (\<lambda>f. projr (imread_result E (os_path_join frame_folder f)))
                              (filter (reads E frame_folder) kept)]))
            \<and> (\<not> (use_imageio \<and> IMAGEIO_AVAILABLE E) \<longrightarrow>
                 decode_calls run =
                   map (\<lambda>f. ImageOpen (os_path_join frame_folder f))
                     (take (Suc (length (takeWhile (opens E frame_folder) kept))) kept)
                 \<and> map frames_of (encode_calls run) =
                     (if kept = [] \<or> (\<exists>f \<in> set kept. \<not> opens E frame_folder f) then []
                      else [map (\<lambda>f. projr (open_result E (os_path_join frame_folder f))) kept]))"
proof -
  let ?files = "png_files_of entries"
  let ?r = "make_gif_optimized E frame_folder duration name use_imageio w"
  let ?run = "run_events w ?r"
  note ld = listdir_Dir [OF assms]
  have len: "length ?files
      = nat \<lceil>real (length (filter (\<lambda>f. endswith f ''.png'') entries)) / 2\<rceil>"
    by (subst png_files_even) simp
  have first: "take 1 ?run = [Print (Found (length ?files))]"
  proof -
    from make_gif_found [OF ld, of E duration name use_imageio]
    obtain rest where "trace (snd ?r) = trace w @ Print (Found (length ?files)) # rest"
      by blast
    then show ?thesis by (simp add: run_events_def)
  qed
  have fast: "decode_calls ?run = map (\<lambda>f. Imread (os_path_join frame_folder f)) ?files
      \<and> map frames_of (encode_calls ?run) =
           (if ?files = [] then []
            else [map (\<lambda>f. projr (imread_result E (os_path_join frame_folder f)))
                    (filter (reads E frame_folder) ?files)])"
    if br: "use_imageio \<and> IMAGEIO_AVAILABLE E"
  proof (cases "?files = []")
    case True
    then show ?thesis
      by (simp add: make_gif_no_frames [OF ld True] decode_calls_def encode_calls_def)
  next
    case False
    from br have u: use_imageio and a: "IMAGEIO_AVAILABLE E" by simp_all
    show ?thesis
      unfolding make_gif_fast [OF ld False u a] Let_def run_events_append
      using False decode_load_events [of E frame_folder ?files]
        encode_load_events [of E frame_folder ?files]
      by (simp add: decode_calls_def encode_calls_def loaded_images_filter split: option.split)
  qed
  have slow: "decode_calls ?run =
        map (\<lambda>f. ImageOpen (os_path_join frame_folder f))
          (take (Suc (length (takeWhile (opens E frame_folder) ?files))) ?files)
      \<and> map frames_of (encode_calls ?run) =
           (if ?files = [] \<or> (\<exists>f \<in> set ?files. \<not> opens E frame_folder f) then []
            else [map (\<lambda>f. projr (open_result E (os_path_join frame_folder f))) ?files])"
    if br: "\<not> (use_imageio \<and> IMAGEIO_AVAILABLE E)"
  proof (cases "?files = []")
    case True
    then show ?thesis
      by (simp add: make_gif_no_frames [OF ld True] decode_calls_def encode_calls_def)
  next
    case ne: False
    show ?thesis
    proof (cases "\<forall>f \<in> set ?files. opens E frame_folder f")
      case True
      then have tw: "takeWhile (opens E frame_folder) ?files = ?files"
        by (simp add: takeWhile_eq_all_conv)
      from ne obtain fr rest where
        fr: "opened_frames E frame_folder ?files = fr # rest"
        by (cases "opened_frames E frame_folder ?files") (auto simp add: opened_frames_def)
      have "map (\<lambda>f. projr (open_result E (os_path_join frame_folder f))) ?files = fr # rest"
        using fr by (simp add: opened_frames_def)
      with True ne show ?thesis
        unfolding make_gif_fallback_ok [OF ld ne br True] Let_def run_events_append tw
        using decode_open_events [of frame_folder ?files]
          encode_open_events [of frame_folder ?files]
        by (simp add: decode_calls_def encode_calls_def fr open_events_def split: option.split)
    next
      case False
      then have ex: "\<exists>f \<in> set ?files. \<not> opens E frame_folder f" by simp
      note sp = split_first_bad [OF ex]
      show ?thesis
        unfolding make_gif_fallback_bad [OF ld br sp(1) sp(3) sp(2)] run_events_append
          take_first_bad [OF ex]
        using ex ne decode_open_events [of frame_folder
            "takeWhile (opens E frame_folder) ?files @ [hd (dropWhile (opens E frame_folder) ?files)]"]
          encode_open_events [of frame_folder
            "takeWhile (opens E frame_folder) ?files @ [hd (dropWhile (opens E frame_folder) ?files)]"]
        by (simp add: decode_calls_def encode_calls_def open_events_def)
    qed
  qed
  note kept = png_files_even [of entries, symmetric]
  from first [unfolded len] fast slow show ?thesis
    unfolding Let_def kept by blast
qed


lemma demo_reads: "reads demo_env frame_folder f"
  by (simp add: reads_def demo_env_def)

theorem retained_frames_even_positions_witness:
  "fs demo_world ''frames'' = Some (Dir demo_entries)
   \<and> decode_calls (run_events demo_world
        (make_gif_optimized demo_env ''frames'' (1 / 10) ''demo'' True demo_world)) =
       [Imread ''frames/f000.png'', Imread ''frames/f002.png'', Imread ''frames/f004.png'',
        Imread ''frames/f006.png'', Imread ''frames/f008.png'']
   \<and> map frames_of (encode_calls (run_events demo_world
        (make_gif_optimized demo_env ''frames'' (1 / 10) ''demo'' True demo_world))) =
       [[''array frames/f000.png'', ''array frames/f002.png'', ''array frames/f004.png'',
         ''array frames/f006.png'', ''array frames/f008.png'']]"
proof -
  have av: "IMAGEIO_AVAILABLE demo_env"
    by (simp add: demo_env_def)
  have rd: "imread_result demo_env p = Inr (''array '' @ p)" for p
    by (simp add: demo_env_def)
  from retained_frames_even_positions [OF demo_fs, of demo_env "1 / 10" "''demo''" True,
      unfolded Let_def png_files_even [symmetric]] av
  have "decode_calls (run_events demo_world
        (make_gif_optimized demo_env ''frames'' (1 / 10) ''demo'' True demo_world)) =
       [Imread ''frames/f000.png'', Imread ''frames/f002.png'', Imread ''frames/f004.png'',
        Imread ''frames/f006.png'', Imread ''frames/f008.png'']
   \<and> map frames_of (encode_calls (run_events demo_world
        (make_gif_optimized demo_env ''frames'' (1 / 10) ''demo'' True demo_world))) =
       [[''array frames/f000.png'', ''array frames/f002.png'', ''array frames/f004.png'',
         ''array frames/f006.png'', ''array frames/f008.png'']]"
    by (simp add: demo_png_files demo_reads rd os_path_join_def)
  with demo_fs show ?thesis by blast
qed

section \<open>Nothing to assemble\<close>






section \<open>The imageio branch, frame by frame\<close>






section \<open>The PIL branch\<close>

text \<open>
  Claim C5, as amended. In the PIL branch nothing catches a failure. When
  \<^verbatim>\<open>Image.open\<close> raises on a retained frame, the frames before it have been opened,
  its failure is the error of the run, no later frame is opened and no encode call is
  made. When every frame opens, the save call is made, and if it raises, that is the error
  of the run. The run returns normally only when every retained frame opens and the save
  call returns.
\<close>

theorem fallback_has_no_recovery:
  assumes "fs w frame_folder = Some (Dir entries)" and "png_files_of entries \<noteq> []"
    and "\<not> (use_imageio \<and> IMAGEIO_AVAILABLE E)"
  shows "let png_files = png_files_of entries;
             good = takeWhile (opens E frame_folder) png_files;
             bad = dropWhile (opens E frame_folder) png_files;
             frames = opened_frames E frame_folder png_files;
             gif_path = os_path_join frame_folder (name @ ''.gif'');
             loading = open_events frame_folder png_files
                       @ [Print (LoadedFrames (length frames))];
             call = PilSave (hd frames) gif_path ''GIF'' (tl frames) True duration 0;
             r = make_gif_optimized E frame_folder duration name use_imageio w
         in r = (case bad of
                   b # later \<Rightarrow>
                     (Inl (LibraryError (projl (open_result E (os_path_join frame_folder b)))),
                      w\<lparr>trace := trace w @ Print (Found (length png_files))
                                      # open_events frame_folder (good @ [b])\<rparr>)
                 | [] \<Rightarrow>
                     (case call_raises E call of
                        Some e \<Rightarrow> Inl (LibraryError e)
                      | None \<Rightarrow> Inr (),
                      w\<lparr>trace := trace w @ Print (Found (length png_files))
                                      # loading
                                      @ call
                                      # (case call_raises E call of
                                           Some e \<Rightarrow> []
                                         | None \<Rightarrow>
                                             [Print (CreatedGif (length frames) gif_path
                                                (sum_list (map (cost E) loading)
                                                 + cost E call))])\<rparr>))
            \<and> (fst r = Inr ()) = (bad = [] \<and> call_raises E call = None)"
proof (cases "\<forall>f \<in> set (png_files_of entries). opens E frame_folder f")
  case True
  then have bad: "dropWhile (opens E frame_folder) (png_files_of entries) = []"
    by (simp add: dropWhile_eq_Nil_conv)
  note run = make_gif_fallback_ok [OF listdir_Dir [OF assms(1)] assms(2,3) True,
      of duration name, unfolded Let_def]
  show ?thesis
    unfolding Let_def bad run
    by (simp split: option.split)
next
  case False
  then have ex: "\<exists>f \<in> set (png_files_of entries). \<not> opens E frame_folder f"
    by simp
  note sp = split_first_bad [OF ex]
  from sp(4) obtain b later where
    bad: "dropWhile (opens E frame_folder) (png_files_of entries) = b # later"
    by (cases "dropWhile (opens E frame_folder) (png_files_of entries)") auto
  note run = make_gif_fallback_bad [OF listdir_Dir [OF assms(1)] assms(3) sp(1) sp(3) sp(2),
      of duration name, unfolded bad list.sel]
  show ?thesis
    unfolding Let_def bad run
    by simp
qed

theorem fallback_has_no_recovery_witness:
  "fs demo_world ''frames'' = Some (Dir demo_entries) \<and> png_files_of demo_entries \<noteq> []
   \<and> make_gif_optimized flaky_env ''frames'' (1 / 10) ''demo'' False demo_world =
       (Inl (LibraryError ''truncated file''),
        demo_world
          \<lparr>trace :=
             [Print (Found 5), ImageOpen ''frames/f000.png'', ImageOpen ''frames/f002.png'',
              ImageOpen ''frames/f004.png'']\<rparr>)"
proof -
  have op: "\<And>f. opens flaky_env ''frames'' f = (os_path_join ''frames'' f \<noteq> ''frames/f004.png'')"
    by (simp add: opens_def flaky_open)
  have ne: "png_files_of demo_entries \<noteq> []"
    by (simp add: demo_png_files)
  have fb: "\<not> (False \<and> IMAGEIO_AVAILABLE flaky_env)"
    by simp
  from fallback_has_no_recovery [OF demo_fs ne fb,
      where duration = "1 / 10" and name = "''demo''"]
  have "make_gif_optimized flaky_env ''frames'' (1 / 10) ''demo'' False demo_world =
       (Inl (LibraryError ''truncated file''),
        demo_world
          \<lparr>trace :=
             [Print (Found 5), ImageOpen ''frames/f000.png'', ImageOpen ''frames/f002.png'',
              ImageOpen ''frames/f004.png'']\<rparr>)"
    by (simp add: demo_png_files op flaky_open os_path_join_def open_events_def Let_def
          demo_trace)
  with demo_fs ne show ?thesis by blast
qed

text \<open>
  The claim as stated fails for a frame that opens but cannot be decoded: nothing is
  raised during loading, the save call is made, and the error comes from it.
\<close>

theorem lazy_frame_fails_in_save:
  "make_gif_optimized lazy_env ''frames'' (1 / 10) ''demo'' False demo_world =
     (Inl (LibraryError ''image file is truncated''),
      demo_world
        \<lparr>trace :=
           [Print (Found 5),
            ImageOpen ''frames/f000.png'', ImageOpen ''frames/f002.png'',
            ImageOpen ''frames/f004.png'', ImageOpen ''frames/f006.png'',
            ImageOpen ''frames/f008.png'',
            Print (LoadedFrames 5),
            PilSave ''handle frames/f000.png'' ''frames/demo.gif'' ''GIF''
              [''handle frames/f002.png'', ''handle frames/f004.png'',
               ''handle frames/f006.png'', ''handle frames/f008.png''] True (1 / 10) 0]\<rparr>)"
proof -
  have ne: "png_files_of demo_entries \<noteq> []"
    by (simp add: demo_png_files)
  have fb: "\<not> (False \<and> IMAGEIO_AVAILABLE lazy_env)"
    by simp
  have ok: "\<forall>f \<in> set (png_files_of demo_entries). opens lazy_env ''frames'' f"
    by (simp add: opens_def lazy_env_def demo_env_def)
  from make_gif_fallback_ok [OF listdir_Dir [OF demo_fs] ne fb ok, of "1 / 10" "''demo''"]
  show ?thesis
    by (simp add: demo_png_files opened_frames_def open_events_def os_path_join_def Let_def
          lazy_env_def demo_env_def demo_trace)
qed

section \<open>\<^verbatim>\<open>batch_save_frames\<close>\<close>

text \<open>
  Claim C6. When the number of figures differs from the number of filenames,
  \<^verbatim>\<open>batch_save_frames\<close> raises \<^verbatim>\<open>ValueError\<close> at once: the world is unchanged, so
  nothing was written, closed or printed.
\<close>

theorem mismatched_lengths_raise_first:
  assumes "length figures \<noteq> length filenames"
  shows "batch_save_frames E figures filenames d batch_size w =
           (Inl (ValueError ''Number of figures must match number of filenames''), w)"
  using assms by (simp add: batch_save_frames_def)

theorem mismatched_lengths_raise_first_witness:
  "length [1, 2, 3 :: nat] \<noteq> length [''a.png'', ''b.png'']
   \<and> batch_save_frames demo_env [1, 2, 3] [''a.png'', ''b.png''] 150 5 demo_world =
       (Inl (ValueError ''Number of figures must match number of filenames''), demo_world)"
proof -
  have h: "length [1, 2, 3 :: nat] \<noteq> length [''a.png'', ''b.png'']"
    by simp
  from mismatched_lengths_raise_first [OF h, of demo_env 150 5 demo_world] h
  show ?thesis by simp
qed

section \<open>The two branches on the scenario\<close>

lemma demo_opens: "opens demo_env frame_folder f"
  by (simp add: opens_def demo_env_def)

lemma demo_fast_run:
  "make_gif_optimized demo_env ''frames'' (1 / 10) ''demo'' True demo_world =
     (Inr (),
      demo_world
        \<lparr>trace :=
           [Print (Found 5),
            Imread ''frames/f000.png'', Imread ''frames/f002.png'', Imread ''frames/f004.png'',
            Imread ''frames/f006.png'', Imread ''frames/f008.png'',
            Mimsave ''frames/demo.gif''
              [''array frames/f000.png'', ''array frames/f002.png'', ''array frames/f004.png'',
               ''array frames/f006.png'', ''array frames/f008.png''] (1 / 10),
            Print (CreatedGif 5 ''frames/demo.gif'' 7)]\<rparr>)"
proof -
  have ne: "png_files_of demo_entries \<noteq> []"
    by (simp add: demo_png_files)
  have av: "IMAGEIO_AVAILABLE demo_env"
    by (simp add: demo_env_def)
  from make_gif_fast [OF listdir_Dir [OF demo_fs] ne TrueI av, of "1 / 10" "''demo''"]
  show ?thesis
    by (simp add: demo_png_files loaded_images_def load_events_def os_path_join_def Let_def
          demo_env_def demo_cost_def demo_world_def)
qed

lemma demo_fallback_run:
  "make_gif_optimized demo_env ''frames'' (1 / 10) ''demo'' False demo_world =
     (Inr (),
      demo_world
        \<lparr>trace :=
           [Print (Found 5),
            ImageOpen ''frames/f000.png'', ImageOpen ''frames/f002.png'',
            ImageOpen ''frames/f004.png'', ImageOpen ''frames/f006.png'',
            ImageOpen ''frames/f008.png'',
            Print (LoadedFrames 5),
            PilSave ''handle frames/f000.png'' ''frames/demo.gif'' ''GIF''
              [''handle frames/f002.png'', ''handle frames/f004.png'',
               ''handle frames/f006.png'', ''handle frames/f008.png''] True (1 / 10) 0,
            Print (CreatedGif 5 ''frames/demo.gif'' 23)]\<rparr>)"
proof -
  have ne: "png_files_of demo_entries \<noteq> []"
    by (simp add: demo_png_files)
  have fb: "\<not> (False \<and> IMAGEIO_AVAILABLE demo_env)"
    by simp
  have ok: "\<forall>f \<in> set (png_files_of demo_entries). opens demo_env ''frames'' f"
    by (simp add: demo_opens)
  from make_gif_fallback_ok [OF listdir_Dir [OF demo_fs] ne fb ok, of "1 / 10" "''demo''"]
  show ?thesis
    by (simp add: demo_png_files opened_frames_def open_events_def os_path_join_def Let_def
          demo_env_def demo_cost_def demo_world_def)
qed

text \<open>
  Claim C2, evaluated on the scenario. Both branches forward the caller's duration. The
  PIL branch passes \<^verbatim>\<open>loop=0\<close>; the call of the imageio branch has no loop argument,
  so the loop count of its output is whatever the installed imageio defaults to.
\<close>

theorem fast_path_passes_no_loop_count:
  "map loop_of
     (encode_calls (run_events demo_world
        (make_gif_optimized demo_env ''frames'' (1 / 10) ''demo'' True demo_world))) = [None]
   \<and> map loop_of
       (encode_calls (run_events demo_world
          (make_gif_optimized demo_env ''frames'' (1 / 10) ''demo'' False demo_world))) = [Some 0]
   \<and> map duration_of
       (encode_calls (run_events demo_world
          (make_gif_optimized demo_env ''frames'' (1 / 10) ''demo'' True demo_world)))
       = [Some (1 / 10)]
   \<and> map duration_of
       (encode_calls (run_events demo_world
          (make_gif_optimized demo_env ''frames'' (1 / 10) ''demo'' False demo_world)))
       = [Some (1 / 10)]"
  unfolding demo_fast_run demo_fallback_run
  by (simp add: run_events_def encode_calls_def demo_world_def)

text \<open>
  Claim C9, evaluated on the scenario, where an open costs 3, a print 1 and an encode 7.
  The imageio branch reports 7, the time of the encode call. The PIL branch reads the clock
  before it opens the frames and reports 23: five opens, one print and the encode call.
\<close>

theorem fallback_timer_spans_loading:
  "last (trace (snd (make_gif_optimized demo_env ''frames'' (1 / 10) ''demo'' False demo_world)))
     = Print (CreatedGif 5 ''frames/demo.gif'' 23)
   \<and> map (cost demo_env)
       (encode_calls (run_events demo_world
          (make_gif_optimized demo_env ''frames'' (1 / 10) ''demo'' False demo_world))) = [7]
   \<and> last (trace (snd (make_gif_optimized demo_env ''frames'' (1 / 10) ''demo'' True demo_world)))
       = Print (CreatedGif 5 ''frames/demo.gif'' 7)
   \<and> map (cost demo_env)
       (encode_calls (run_events demo_world
          (make_gif_optimized demo_env ''frames'' (1 / 10) ''demo'' True demo_world))) = [7]"
  unfolding demo_fast_run demo_fallback_run
  by (simp add: run_events_def encode_calls_def demo_world_def demo_env_def demo_cost_def)

section \<open>\<^verbatim>\<open>batch_save_frames\<close>, figure by figure\<close>

lemma save_frame_ok:
  assumes "call_raises E (savefig_call d fig fname) = None"
  shows "save_frame_optimized E fig fname d w =
           (Inr (),
            w\<lparr>trace := trace w @ [savefig_call d fig fname,
                                   Print (Saved fname (cost E (savefig_call d fig fname)))]\<rparr>)"
  using assms
  by (simp add: save_frame_optimized_def savefig_call_def Let_def emit_def time_time_def)

lemma effects_item: "effects (item_events E d p) = write_then_close d p"
  by (cases p) (simp add: effects_def item_events_def write_then_close_def savefig_call_def)

lemma effects_append: "effects (xs @ ys) = effects xs @ effects ys"
  by (simp add: effects_def)

lemma effects_print: "effects (Print l # es) = effects es"
  by (simp add: effects_def)

lemma effects_items: "effects (concat (map (item_events E d) ps)) = concat (map (write_then_close d) ps)"
  by (induction ps) (simp_all add: effects_append effects_item, simp add: effects_def)

lemma slice_zip:
  "length xs = length ys \<Longrightarrow> zip (slice xs i j) (slice ys i j) = take (j - i) (drop i (zip xs ys))"
  by (simp add: slice_def take_zip drop_zip)

lemma save_frame_raises:
  assumes "call_raises E (savefig_call d fig fname) = Some e"
  shows "save_frame_optimized E fig fname d w =
           (Inl (LibraryError e), w\<lparr>trace := trace w @ [savefig_call d fig fname]\<rparr>)"
  using assms
  by (simp add: save_frame_optimized_def savefig_call_def Let_def emit_def)

lemma save_batch_eq:
  "save_batch E d ps w =
     (stop_outcome E d ps,
      w\<lparr>trace := trace w @ concat (map (item_events E d) (takeWhile (write_ok E d) ps))
                      @ stop_events E d ps\<rparr>)"
proof (induction ps arbitrary: w)
  case Nil
  then show ?case by (simp add: stop_outcome_def stop_events_def)
next
  case (Cons p ps)
  obtain fig fname where p: "p = (fig, fname)" by (cases p)
  show ?case
  proof (cases "call_raises E (savefig_call d fig fname)")
    case None
    then have ok: "write_ok E d (fig, fname)" by (simp add: write_ok_def)
    show ?thesis
      using ok
      by (simp add: p save_frame_ok [OF None] Cons.IH emit_def item_events_def
            stop_outcome_def stop_events_def)
  next
    case (Some e)
    then have bad: "\<not> write_ok E d (fig, fname)" by (simp add: write_ok_def)
    show ?thesis
      using bad Some
      by (simp add: p save_frame_raises [OF Some] stop_outcome_def stop_events_def)
  qed
qed

lemma stop_append_ok:
  assumes "\<forall>p \<in> set ps. write_ok E d p"
  shows "stop_outcome E d (ps @ rest) = stop_outcome E d rest"
    and "stop_events E d (ps @ rest) = stop_events E d rest"
    and "takeWhile (write_ok E d) (ps @ rest) = ps @ takeWhile (write_ok E d) rest"
    and "stop_outcome E d ps = Inr ()" and "stop_events E d ps = []"
    and "takeWhile (write_ok E d) ps = ps"
  using assms
  by (simp_all add: stop_outcome_def stop_events_def dropWhile_append2 takeWhile_append2
        dropWhile_eq_Nil_conv [THEN iffD2] takeWhile_eq_all_conv [THEN iffD2])

lemma stop_append_bad:
  assumes "\<exists>p \<in> set ps. \<not> write_ok E d p"
  shows "stop_outcome E d (ps @ rest) = stop_outcome E d ps"
    and "stop_events E d (ps @ rest) = stop_events E d ps"
    and "takeWhile (write_ok E d) (ps @ rest) = takeWhile (write_ok E d) ps"
    and "stop_outcome E d ps \<noteq> Inr ()"
proof -
  from assms have ne: "dropWhile (write_ok E d) ps \<noteq> []"
    by (simp add: dropWhile_eq_Nil_conv)
  then obtain b later where b: "dropWhile (write_ok E d) ps = b # later"
    by (cases "dropWhile (write_ok E d) ps") auto
  from assms obtain x where "x \<in> set ps" "\<not> write_ok E d x" by blast
  then have dw: "dropWhile (write_ok E d) (ps @ rest) = dropWhile (write_ok E d) ps @ rest"
    and tw: "takeWhile (write_ok E d) (ps @ rest) = takeWhile (write_ok E d) ps"
    by (simp_all add: dropWhile_append1 takeWhile_append1)
  show "stop_outcome E d (ps @ rest) = stop_outcome E d ps"
    by (simp add: stop_outcome_def dw b)
  show "stop_events E d (ps @ rest) = stop_events E d ps"
    by (simp add: stop_events_def dw b)
  show "takeWhile (write_ok E d) (ps @ rest) = takeWhile (write_ok E d) ps"
    by (rule tw)
  show "stop_outcome E d ps \<noteq> Inr ()"
    by (simp add: stop_outcome_def b split: prod.split)
qed

lemma effects_stop: "effects (stop_events E d ps) = stop_events E d ps"
  by (simp add: stop_events_def effects_def savefig_call_def split: list.split prod.split)

lemma batch_loop_eq:
  assumes len: "length figures = length filenames" and pos: "0 < batch_size"
  shows "\<exists>w'. batch_loop E figures filenames d batch_size i w =
                 (stop_outcome E d (drop i (zip figures filenames)), w')
              \<and> fs w' = fs w
              \<and> effects (trace w') =
                  effects (trace w)
                  @ concat (map (write_then_close d)
                      (takeWhile (write_ok E d) (drop i (zip figures filenames))))
                  @ stop_events E d (drop i (zip figures filenames))"
proof (induction "length figures - i" arbitrary: i w rule: less_induct)
  case less
  let ?total = "length figures"
  let ?zs = "zip figures filenames"
  show ?case
  proof (cases "?total \<le> i")
    case True
    with len show ?thesis
      by (subst batch_loop.simps) (simp add: stop_outcome_def stop_events_def)
  next
    case False
    let ?k = "min (i + batch_size) ?total - i"
    let ?w1 = "emit (Print (ProcessingBatch (i div batch_size + 1)
                              ((?total - 1) div batch_size + 1))) w"
    let ?ps = "take ?k (drop i ?zs)"
    let ?rest = "drop (i + batch_size) ?zs"
    have zipeq: "zip (slice figures i (min (i + batch_size) ?total))
                     (slice filenames i (min (i + batch_size) ?total)) = ?ps"
      using len by (rule slice_zip)
    have whole: "drop i ?zs = ?ps @ ?rest"
    proof (cases "i + batch_size \<le> ?total")
      case True
      then have k: "?k = batch_size" by simp
      show ?thesis
        unfolding k using append_take_drop_id [of batch_size "drop i ?zs"]
        by (simp add: add.commute)
    next
      case False
      with len show ?thesis by simp
    qed
    let ?w2 = "?w1\<lparr>trace := trace ?w1
                 @ concat (map (item_events E d) (takeWhile (write_ok E d) ?ps))
                 @ stop_events E d ?ps\<rparr>"
    have sb: "save_batch E d ?ps ?w1 = (stop_outcome E d ?ps, ?w2)"
      by (rule save_batch_eq)
    have eff2: "effects (trace ?w2) =
        effects (trace w) @ concat (map (write_then_close d) (takeWhile (write_ok E d) ?ps))
        @ stop_events E d ?ps"
      by (simp add: emit_def effects_append effects_items effects_print effects_stop)
    show ?thesis
    proof (cases "\<forall>p \<in> set ?ps. write_ok E d p")
      case True
      note st = stop_append_ok [OF True]
      from False pos have "?total - (i + batch_size) < ?total - i"
        by simp
      from less [OF this, of ?w2] obtain w' where
        rec: "batch_loop E figures filenames d batch_size (i + batch_size) ?w2
                = (stop_outcome E d ?rest, w')"
        and fsw: "fs w' = fs ?w2"
        and eff: "effects (trace w') =
                    effects (trace ?w2)
                    @ concat (map (write_then_close d) (takeWhile (write_ok E d) ?rest))
                    @ stop_events E d ?rest"
        by blast
      have o1: "stop_outcome E d (drop i ?zs) = stop_outcome E d ?rest"
        by (subst whole) (rule st(1))
      have o2: "stop_events E d (drop i ?zs) = stop_events E d ?rest"
        by (subst whole) (rule st(2))
      have o3: "takeWhile (write_ok E d) (drop i ?zs) = ?ps @ takeWhile (write_ok E d) ?rest"
        by (subst whole) (rule st(3))
      have unfold: "batch_loop E figures filenames d batch_size i w
                      = (stop_outcome E d (drop i ?zs), w')"
        unfolding o1
        using False pos sb rec st(4)
        by (subst batch_loop.simps) (simp add: Let_def zipeq)
      have "effects (trace w') =
          effects (trace w)
          @ concat (map (write_then_close d) (takeWhile (write_ok E d) (drop i ?zs)))
          @ stop_events E d (drop i ?zs)"
        unfolding o2 o3 eff
        by (simp add: st(5,6) emit_def effects_append effects_items effects_print)
      moreover from fsw have "fs w' = fs w" by (simp add: emit_def)
      ultimately show ?thesis using unfold by blast
    next
      case False
      then have ex: "\<exists>p \<in> set ?ps. \<not> write_ok E d p" by simp
      note st = stop_append_bad [OF ex]
      from st(4) obtain e where out: "stop_outcome E d ?ps = Inl e"
        by (cases "stop_outcome E d ?ps") auto
      have o1: "stop_outcome E d (drop i ?zs) = stop_outcome E d ?ps"
        by (subst whole) (rule st(1))
      have o2: "stop_events E d (drop i ?zs) = stop_events E d ?ps"
        by (subst whole) (rule st(2))
      have o3: "takeWhile (write_ok E d) (drop i ?zs) = takeWhile (write_ok E d) ?ps"
        by (subst whole) (rule st(3))
      have unfold: "batch_loop E figures filenames d batch_size i w
                      = (stop_outcome E d (drop i ?zs), ?w2)"
        unfolding o1
        using \<open>\<not> ?total \<le> i\<close> pos sb out
        by (subst batch_loop.simps) (simp add: Let_def zipeq)
      have "effects (trace ?w2) =
          effects (trace w)
          @ concat (map (write_then_close d) (takeWhile (write_ok E d) (drop i ?zs)))
          @ stop_events E d (drop i ?zs)"
        unfolding o2 o3 eff2 by simp
      moreover have "fs ?w2 = fs w" by (simp add: emit_def)
      ultimately show ?thesis using unfold by blast
    qed
  qed
qed

text \<open>
  Claim C7, as amended. For lists of figures and filenames of equal length and a batch
  size of at least one, \<^verbatim>\<open>batch_save_frames\<close> goes through the figures in input order,
  whatever the batch size. Each figure whose write returns is written at the given dpi and
  released right after its own write. When every write returns, that is one write and one
  release per figure, and the call returns normally. When a write raises, that write is
  the last call made: its figure is not released, the figures after it, also those of
  later batches, are neither written nor released, and the error of the write is the error
  of the call.
\<close>

theorem batch_writes_then_closes_each_figure:
  assumes "length figures = length filenames" and "0 < batch_size"
  shows "let items = zip figures filenames;
             written = takeWhile (write_ok E d) items;
             failed = dropWhile (write_ok E d) items;
             r = batch_save_frames E figures filenames d batch_size w
         in fst r = (case failed of
                       [] \<Rightarrow> Inr ()
                     | (fig, fname) # later \<Rightarrow>
                         Inl (LibraryError (the (call_raises E (savefig_call d fig fname)))))
            \<and> fs (snd r) = fs w
            \<and> effects (trace (snd r)) =
                effects (trace w)
                @ concat (map (write_then_close d) written)
                @ (case failed of
                     [] \<Rightarrow> []
                   | (fig, fname) # later \<Rightarrow> [savefig_call d fig fname])"
proof -
  from assms(2) have pos: "0 < nat batch_size" by simp
  from batch_loop_eq [OF assms(1) pos, of E d 0 w] assms(1,2)
  show ?thesis
    by (auto simp add: batch_save_frames_def Let_def stop_outcome_def stop_events_def)
qed

lemma demo_write_ok: "write_ok demo_env d p"
  by (simp add: write_ok_def demo_env_def split: prod.split)

lemma jam_write_ok: "write_ok jam_env d (fig, fname) = (fig \<noteq> 2)"
  by (simp add: write_ok_def jam_env_def savefig_call_def)

lemma jam_raises:
  "call_raises jam_env (savefig_call d 2 fname) = Some ''No space left on device''"
  by (simp add: jam_env_def savefig_call_def)

theorem batch_writes_then_closes_each_figure_witness:
  "length [1, 2, 3 :: nat] = length [''sim/rl_pos_000.png'', ''sim/rl_pos_001.png'', ''sim/rl_pos_002.png'']
   \<and> (0 :: int) < 2
   \<and> fst (batch_save_frames demo_env [1, 2, 3]
            [''sim/rl_pos_000.png'', ''sim/rl_pos_001.png'', ''sim/rl_pos_002.png'']
            150 2 demo_world) = Inr ()
   \<and> effects (trace (snd (batch_save_frames demo_env [1, 2, 3]
            [''sim/rl_pos_000.png'', ''sim/rl_pos_001.png'', ''sim/rl_pos_002.png'']
            150 2 demo_world))) =
       [savefig_call 150 1 ''sim/rl_pos_000.png'', Close 1,
        savefig_call 150 2 ''sim/rl_pos_001.png'', Close 2,
        savefig_call 150 3 ''sim/rl_pos_002.png'', Close 3]
   \<and> fst (batch_save_frames jam_env [1, 2, 3]
            [''sim/rl_pos_000.png'', ''sim/rl_pos_001.png'', ''sim/rl_pos_002.png'']
            150 1 demo_world) = Inl (LibraryError ''No space left on device'')
   \<and> effects (trace (snd (batch_save_frames jam_env [1, 2, 3]
            [''sim/rl_pos_000.png'', ''sim/rl_pos_001.png'', ''sim/rl_pos_002.png'']
            150 1 demo_world))) =
       [savefig_call 150 1 ''sim/rl_pos_000.png'', Close 1,
        savefig_call 150 2 ''sim/rl_pos_001.png'']"
proof -
  have len: "length [1, 2, 3 :: nat]
      = length [''sim/rl_pos_000.png'', ''sim/rl_pos_001.png'', ''sim/rl_pos_002.png'']"
    by simp
  have pos2: "(0 :: int) < 2" by simp
  have pos1: "(0 :: int) < 1" by simp
  from batch_writes_then_closes_each_figure [OF len pos2, of demo_env 150 demo_world]
  have ok: "fst (batch_save_frames demo_env [1, 2, 3]
            [''sim/rl_pos_000.png'', ''sim/rl_pos_001.png'', ''sim/rl_pos_002.png'']
            150 2 demo_world) = Inr ()
   \<and> effects (trace (snd (batch_save_frames demo_env [1, 2, 3]
            [''sim/rl_pos_000.png'', ''sim/rl_pos_001.png'', ''sim/rl_pos_002.png'']
            150 2 demo_world))) =
       [savefig_call 150 1 ''sim/rl_pos_000.png'', Close 1,
        savefig_call 150 2 ''sim/rl_pos_001.png'', Close 2,
        savefig_call 150 3 ''sim/rl_pos_002.png'', Close 3]"
    by (simp add: Let_def demo_write_ok write_then_close_def demo_trace effects_def)
  from batch_writes_then_closes_each_figure [OF len pos1, of jam_env 150 demo_world]
  have jam: "fst (batch_save_frames jam_env [1, 2, 3]
            [''sim/rl_pos_000.png'', ''sim/rl_pos_001.png'', ''sim/rl_pos_002.png'']
            150 1 demo_world) = Inl (LibraryError ''No space left on device'')
   \<and> effects (trace (snd (batch_save_frames jam_env [1, 2, 3]
            [''sim/rl_pos_000.png'', ''sim/rl_pos_001.png'', ''sim/rl_pos_002.png'']
            150 1 demo_world))) =
       [savefig_call 150 1 ''sim/rl_pos_000.png'', Close 1,
        savefig_call 150 2 ''sim/rl_pos_001.png'']"
    by (simp add: Let_def jam_write_ok jam_raises write_then_close_def demo_trace effects_def)
  from len pos2 ok jam show ?thesis by blast
qed

text \<open>
  The claim as stated fails in two ways. When a write raises, the error leaves the
  function at once: the failing figure is not released and the later figures are neither
  written nor released. And with a negative batch size the loop over
  \<^verbatim>\<open>range(0, total, batch_size)\<close> is empty, so nothing is written at all.
\<close>

theorem batch_failed_write_skips_release:
  "batch_save_frames jam_env [1, 2, 3]
     [''sim/rl_pos_000.png'', ''sim/rl_pos_001.png'', ''sim/rl_pos_002.png''] 150 5 demo_world =
     (Inl (LibraryError ''No space left on device''),
      demo_world
        \<lparr>trace :=
           [Print (ProcessingBatch 1 1),
            savefig_call 150 1 ''sim/rl_pos_000.png'', Print (Saved ''sim/rl_pos_000.png'' 2),
            Close 1,
            savefig_call 150 2 ''sim/rl_pos_001.png'']\<rparr>)
   \<and> batch_save_frames demo_env [1, 2, 3]
       [''sim/rl_pos_000.png'', ''sim/rl_pos_001.png'', ''sim/rl_pos_002.png''] 150 (- 1) demo_world =
       (Inr (), demo_world)"
  by (simp add: batch_save_frames_def batch_loop.simps slice_def save_frame_optimized_def
        Let_def emit_def time_time_def jam_env_def demo_env_def demo_cost_def savefig_call_def
        demo_trace)

section \<open>The two backends compared\<close>

lemma opens_available [simp]:
  "opens (E\<lparr>IMAGEIO_AVAILABLE := a\<rparr>) frame_folder f = opens E frame_folder f"
  by (simp add: opens_def)








end
